theory Spec2Isabelle
  imports Main
begin

section \<open>C++ types and compile-time objects\<close>

text \<open>
  The library computes with C++ types during translation. A C++ type is a term of
  \<open>ctype\<close>; two terms are equal exactly when they name the same type. The universe has
  the fundamental types, pointers, ordinary classes, specialisations \<open>f<x1, ..., xN>\<close>
  of class templates, \<open>std::initializer_list<T>\<close>, the types \<open>integral<T, v>\<close> of
  integral.hpp, and \<open>Wrapper T\<close>: the local struct \<open>wrapper\<close> of the function template
  specialisation \<open>type_detail::make_wrapper<T>\<close>. Each specialisation of a function
  template has its own local classes, so \<open>Wrapper\<close> is a constructor of the datatype.

  Top-level cv-qualifiers and references are not tracked: every function of type.hpp
  takes its arguments by value (\<open>auto t\<close>, \<open>T t\<close>, \<open>Args ...args\<close>) and returns
  \<open>auto\<close>, and both drop them.

  The definitions keep the names of the source; a name of the source that ends in an
  underscore (\<open>decltype_\<close>, \<open>sizeof_\<close>, \<open>template_\<close>, \<open>lift_\<close>, \<open>true_\<close>,
  \<open>false_\<close>) is written with a prime after it.
\<close>

datatype ctype =
    CVoid | CBool | CChar | CShort | CInt | CLong | CLongLong | CFloat | CDouble | CLongDouble
  | Pointer ctype
  | Class string
  | Inst string "ctype list"
  | InitializerList ctype
  | IntegralTy ctype int
  | Wrapper ctype

text \<open>
  An object is written as the expression that builds it: \<open>Braced T args\<close> is
  \<open>T{args...}\<close>, \<open>Parens T args\<close> is \<open>T(args...)\<close>, \<open>IList T xs\<close> is a
  \<open>std::initializer_list<T>\<close> holding \<open>xs\<close>, \<open>Lit T s\<close> is the literal \<open>s\<close> of the
  arithmetic type \<open>T\<close>, and \<open>IntegralC T v\<close> is the object of type \<open>integral<T, v>\<close>.
\<close>

datatype cval =
    Braced ctype "cval list"
  | Parens ctype "cval list"
  | IList ctype "cval list"
  | Lit ctype string
  | IntegralC ctype int

text \<open>\<open>decltype(t)\<close> of a by-value parameter \<open>t\<close> bound to the object.\<close>

fun typeof :: "cval \<Rightarrow> ctype" where
  "typeof (Braced T args) = T"
| "typeof (Parens T args) = T"
| "typeof (IList T xs) = InitializerList T"
| "typeof (Lit T s) = T"
| "typeof (IntegralC T v) = IntegralTy T v"

text \<open>
  Translation fails where a name is looked up in a type that has no such member, where
  a template-id is not valid, where an initialisation is ill-formed, where \<open>sizeof\<close>
  is applied to an incomplete type, where no instance of a concept is registered for a
  tag, and where an object that is no compile-time condition is used as one.
\<close>

datatype error =
    No_member ctype string
  | Invalid_template_id "ctype list"
  | Not_initializable ctype "ctype list"
  | Incomplete_type ctype
  | No_instance
  | Not_a_condition ctype

type_synonym 'a result = "error + 'a"

definition bind :: "'a result \<Rightarrow> ('a \<Rightarrow> 'b result) \<Rightarrow> 'b result" where
  "bind r k = (case r of Inl e \<Rightarrow> Inl e | Inr x \<Rightarrow> k x)"

text \<open>
  A template template argument \<open>template <typename ...> class f\<close>: the type that
  \<open>f<x1, ..., xN>\<close> names, if the template-id is valid. A class template of \<open>n\<close>
  type parameters names its own specialisation.
\<close>

type_synonym tmpl = "ctype list \<Rightarrow> ctype option"

definition class_template :: "string \<Rightarrow> nat \<Rightarrow> tmpl" where
  "class_template name n xs = (if length xs = n then Some (Inst name xs) else None)"

definition instantiate :: "tmpl \<Rightarrow> ctype list \<Rightarrow> ctype result" where
  "instantiate f xs = (case f xs of None \<Rightarrow> Inl (Invalid_template_id xs) | Some R \<Rightarrow> Inr R)"

text \<open>
  The declarations of the translation unit that type.hpp does not see: for a type \<open>T\<close>
  and argument types \<open>As\<close>, whether \<open>T{args...}\<close> and \<open>T(args...)\<close> are well-formed
  for lvalue arguments of these types, and \<open>sizeof(T)\<close>.
\<close>

record decls =
  list_initializable :: "ctype \<Rightarrow> ctype list \<Rightarrow> bool"
  direct_initializable :: "ctype \<Rightarrow> ctype list \<Rightarrow> bool"
  size_of :: "ctype \<Rightarrow> nat option"

text \<open>
  \<open>T{args...}\<close>. The struct \<open>wrapper\<close> is built as \<open>wrapper{}\<close> by
  \<open>make_wrapper\<close> itself; every other initialisation is the translation unit's.
\<close>

definition list_init :: "decls \<Rightarrow> ctype \<Rightarrow> cval list \<Rightarrow> cval result" where
  "list_init D T args =
     (case (T, args) of
        (Wrapper X, []) \<Rightarrow> Inr (Braced T [])
      | _ \<Rightarrow> if list_initializable D T (map typeof args) then Inr (Braced T args)
             else Inl (Not_initializable T (map typeof args)))"

definition direct_init :: "decls \<Rightarrow> ctype \<Rightarrow> cval list \<Rightarrow> cval result" where
  "direct_init D T args =
     (if direct_initializable D T (map typeof args) then Inr (Parens T args)
      else Inl (Not_initializable T (map typeof args)))"

section \<open>type.hpp\<close>

text \<open>
  The data-type tags. \<open>struct Type { };\<close> is the tag of type.hpp; \<open>Integral\<close> is
  the tag that its documentation names for the compile-time constants of integral.hpp.
\<close>

datatype tag = Type | Integral

text \<open>
  The member typedef \<open>hidden\<close>, which \<open>wrapper\<close> declares as \<open>T\<close>. The other types
  of the universe declare no member of that name.
\<close>

fun hidden :: "ctype \<Rightarrow> ctype option" where
  "hidden (Wrapper T) = Some T"
| "hidden _ = None"

text \<open>
  The member typedef \<open>hana_datatype\<close>, which \<open>wrapper\<close> declares as \<open>Type\<close>. The
  types \<open>integral<T, v>\<close> are taken to declare \<open>Integral\<close>; their header is not among
  the sources, and the statements below use of that equation only that the tag of
  these types is not \<open>Type\<close>.
\<close>

fun hana_datatype :: "ctype \<Rightarrow> tag option" where
  "hana_datatype (Wrapper T) = Some Type"
| "hana_datatype (IntegralTy T v) = Some Integral"
| "hana_datatype _ = None"

text \<open>\<open>make_wrapper<T>()\<close> returns \<open>wrapper{}\<close>; \<open>type<T>\<close> is that object.\<close>

definition make_wrapper :: "ctype \<Rightarrow> cval" where
  "make_wrapper T = Braced (Wrapper T) []"

definition type :: "ctype \<Rightarrow> cval" where
  "type T = make_wrapper T"

text \<open>\<open>untype<T>::type\<close> is \<open>typename T::hidden\<close>; \<open>untype_t\<close> is its alias.\<close>

definition untype :: "ctype \<Rightarrow> ctype result" where
  "untype T = (case hidden T of None \<Rightarrow> Inl (No_member T ''hidden'') | Some H \<Rightarrow> Inr H)"

definition untype_t :: "ctype \<Rightarrow> ctype result" where
  "untype_t T = untype T"

text \<open>The pack expansion \<open>untype_t<Args>...\<close>.\<close>

fun untype_ts :: "ctype list \<Rightarrow> ctype list result" where
  "untype_ts [] = Inr []"
| "untype_ts (T # Ts) =
     (case untype_t T of
        Inl e \<Rightarrow> Inl e
      | Inr H \<Rightarrow> (case untype_ts Ts of Inl e \<Rightarrow> Inl e | Inr Hs \<Rightarrow> Inr (H # Hs)))"

text \<open>
  \<open>construct<Wrapper>::operator()\<close>. The overload for one
  \<open>std::initializer_list<T>\<close> is the more specialised one and is taken when the call
  has exactly one argument of such a type; it returns \<open>hidden(ilist)\<close>. Every other
  call takes the variadic overload, which returns \<open>hidden{args...}\<close>.
\<close>

definition construct :: "decls \<Rightarrow> ctype \<Rightarrow> cval list \<Rightarrow> cval result" where
  "construct D W args =
     (case hidden W of
        None \<Rightarrow> Inl (No_member W ''hidden'')
      | Some H \<Rightarrow>
          (case map typeof args of
             [InitializerList E] \<Rightarrow> direct_init D H args
           | _ \<Rightarrow> list_init D H args))"

text \<open>
  Calling an object \<open>t(args...)\<close>: \<open>wrapper\<close> inherits the call operator of
  \<open>construct<wrapper>\<close>.
\<close>

definition call :: "decls \<Rightarrow> cval \<Rightarrow> cval list \<Rightarrow> cval result" where
  "call D t args = construct D (typeof t) args"

definition decltype_' :: "cval \<Rightarrow> cval" where
  "decltype_' t = type (typeof t)"

text \<open>
  Modelled from the spec: \<open>size_t<n>\<close> of integral.hpp, which is not among the
  sources: the compile-time constant \<open>n\<close> of type \<open>std::size_t\<close>.
\<close>

definition size_t :: "nat \<Rightarrow> cval" where
  "size_t n = IntegralC (Class ''std::size_t'') (int n)"

definition sizeof_' :: "decls \<Rightarrow> cval \<Rightarrow> cval result" where
  "sizeof_' D t =
     bind (untype_t (typeof t))
       (\<lambda>H. case size_of D H of
               None \<Rightarrow> Inl (Incomplete_type H)
             | Some n \<Rightarrow> Inr (size_t n))"

text \<open>\<open>type_detail::Template<f>::operator()\<close>, the call of \<open>template_<f>\<close>.\<close>

definition template_' :: "tmpl \<Rightarrow> cval list \<Rightarrow> cval result" where
  "template_' f args =
     bind (untype_ts (map typeof args))
       (\<lambda>xs. bind (instantiate f xs) (\<lambda>R. Inr (type R)))"

text \<open>\<open>type_detail::lift<f>::operator()\<close> and \<open>type_detail::lift_<f>::operator()\<close>.\<close>

definition lift :: "decls \<Rightarrow> tmpl \<Rightarrow> cval list \<Rightarrow> cval result" where
  "lift D f ts =
     bind (untype_ts (map typeof ts))
       (\<lambda>xs. bind (instantiate f xs) (\<lambda>R. list_init D R []))"

definition lift_' :: "decls \<Rightarrow> tmpl \<Rightarrow> cval list \<Rightarrow> cval result" where
  "lift_' D f ts = bind (instantiate f (map typeof ts)) (\<lambda>R. list_init D R [])"

text \<open>
  The documentation of \<open>lift_<f>\<close> calls it "equivalent to
  \<open>compose(lift<f>, decltype_)\<close>"; \<open>compose\<close> (functional.hpp) is not among the
  sources. The documented function, as distinct from \<open>lift_'\<close> above, applies
  \<open>decltype_\<close> to each argument and \<open>lift<f>\<close> to the Type objects so obtained.
\<close>

definition lift_decltype :: "decls \<Rightarrow> tmpl \<Rightarrow> cval list \<Rightarrow> cval result" where
  "lift_decltype D f vs = lift D f (map decltype_' vs)"

text \<open>
  Modelled from the spec: \<open>true_\<close> of integral.hpp, which is not among the sources:
  the compile-time boolean true, the constant of type \<open>integral<bool, true>\<close>.
\<close>

definition true_' :: cval where
  "true_' = IntegralC CBool 1"

text \<open>
  Modelled from the spec: \<open>false_\<close> of integral.hpp, which is not among the sources:
  the compile-time boolean false, the constant of type \<open>integral<bool, false>\<close>.
\<close>

definition false_' :: cval where
  "false_' = IntegralC CBool 0"

text \<open>
  \<open>Comparable<Type, Type>::equal_impl\<close>. Overload resolution takes
  \<open>equal_impl(T, T)\<close>, the more specialised template, exactly when both arguments
  have the same type, and \<open>equal_impl(T, U)\<close> otherwise.
\<close>

definition equal_impl :: "cval \<Rightarrow> cval \<Rightarrow> cval" where
  "equal_impl x y = (if typeof x = typeof y then true_' else false_')"

text \<open>\<open>Functor<Type>::fmap_impl\<close>.\<close>

definition fmap_impl :: "(cval \<Rightarrow> cval result) \<Rightarrow> cval \<Rightarrow> cval result" where
  "fmap_impl f t = f t"

text \<open>\<open>Monad<Type>::unit_impl\<close> and \<open>Monad<Type>::join_impl\<close>.\<close>

definition unit_impl :: "cval \<Rightarrow> cval" where
  "unit_impl t = decltype_' t"

definition join_impl :: "decls \<Rightarrow> cval \<Rightarrow> cval result" where
  "join_impl D t = bind (untype_t (typeof t)) (\<lambda>H. list_init D H [])"

section \<open>Tag dispatch\<close>

text \<open>
  Modelled from the spec: \<open>datatype_t\<close> of core.hpp, which is not among the sources:
  "a value's declared data-type tag".
\<close>

definition datatype_of :: "cval \<Rightarrow> tag option" where
  "datatype_of v = hana_datatype (typeof v)"

text \<open>
  The instances that type.hpp registers: \<open>Comparable<Type, Type>\<close>,
  \<open>Functor<Type>\<close> and \<open>Monad<Type>\<close>, the latter with its two operations. The
  instances of other tags are in headers that are not among the sources; a lookup at
  such a tag finds nothing here, and no statement below depends on such a lookup.
\<close>

fun Comparable :: "tag \<Rightarrow> tag \<Rightarrow> (cval \<Rightarrow> cval \<Rightarrow> cval) option" where
  "Comparable Type Type = Some equal_impl"
| "Comparable _ _ = None"

fun Functor :: "tag \<Rightarrow> ((cval \<Rightarrow> cval result) \<Rightarrow> cval \<Rightarrow> cval result) option" where
  "Functor Type = Some fmap_impl"
| "Functor _ = None"

fun Monad_unit :: "tag \<Rightarrow> (cval \<Rightarrow> cval) option" where
  "Monad_unit Type = Some unit_impl"
| "Monad_unit _ = None"

fun Monad_join :: "tag \<Rightarrow> (decls \<Rightarrow> cval \<Rightarrow> cval result) option" where
  "Monad_join Type = Some join_impl"
| "Monad_join _ = None"

text \<open>
  The dispatching functions \<open>equal\<close> (comparable.hpp), \<open>fmap\<close> (functor.hpp),
  \<open>unit\<close> and \<open>join\<close> (monad.hpp) are not among the sources. Following the
  glossary, "tag dispatch" selects "an algorithm implementation at compile time based
  on a value's declared data-type tag", and an instance is "a per-tag implementation"
  of a concept's operations.
\<close>

text \<open>
  Modelled from the spec: \<open>equal\<close> of comparable.hpp, which is not among the sources:
  the \<open>equal_impl\<close> of the instance of \<open>Comparable\<close> for the tags of both arguments.
\<close>

definition equal :: "cval \<Rightarrow> cval \<Rightarrow> cval result" where
  "equal x y =
     (case (datatype_of x, datatype_of y) of
        (Some a, Some b) \<Rightarrow>
          (case Comparable a b of None \<Rightarrow> Inl No_instance | Some impl \<Rightarrow> Inr (impl x y))
      | _ \<Rightarrow> Inl No_instance)"

text \<open>
  Modelled from the spec: \<open>fmap\<close> of functor.hpp, which is not among the sources: the
  \<open>fmap_impl\<close> of the instance of \<open>Functor\<close> for the tag of the structure.
\<close>

definition fmap :: "(cval \<Rightarrow> cval result) \<Rightarrow> cval \<Rightarrow> cval result" where
  "fmap f t =
     (case datatype_of t of
        None \<Rightarrow> Inl No_instance
      | Some a \<Rightarrow> (case Functor a of None \<Rightarrow> Inl No_instance | Some impl \<Rightarrow> impl f t))"

text \<open>
  Modelled from the spec: \<open>unit\<close> of monad.hpp, which is not among the sources: the
  \<open>unit_impl\<close> of the instance of \<open>Monad\<close> for the tag of the argument.
\<close>

definition unit :: "cval \<Rightarrow> cval result" where
  "unit t =
     (case datatype_of t of
        None \<Rightarrow> Inl No_instance
      | Some a \<Rightarrow> (case Monad_unit a of None \<Rightarrow> Inl No_instance | Some impl \<Rightarrow> Inr (impl t)))"

text \<open>
  Modelled from the spec: \<open>join\<close> of monad.hpp, which is not among the sources: the
  \<open>join_impl\<close> of the instance of \<open>Monad\<close> for the tag of the argument.
\<close>

definition join :: "decls \<Rightarrow> cval \<Rightarrow> cval result" where
  "join D t =
     (case datatype_of t of
        None \<Rightarrow> Inl No_instance
      | Some a \<Rightarrow> (case Monad_join a of None \<Rightarrow> Inl No_instance | Some impl \<Rightarrow> impl D t))"

section \<open>The examples' translation unit\<close>

text \<open>
  The examples include \<open><type_traits>\<close> and adapted/std_integral_constant.hpp, neither
  of which is among the sources. \<open>std::is_integral<T>\<close> and
  \<open>std::is_floating_point<T>\<close> are class templates of one parameter whose
  specialisations are empty classes with a static member \<open>value\<close>, as the C++
  standard defines them on the fundamental types.
\<close>

definition is_integral :: "ctype \<Rightarrow> bool" where
  "is_integral T = (T \<in> set [CBool, CChar, CShort, CInt, CLong, CLongLong])"

definition is_floating_point :: "ctype \<Rightarrow> bool" where
  "is_floating_point T = (T \<in> set [CFloat, CDouble, CLongDouble])"

definition std_is_integral :: tmpl where
  "std_is_integral = class_template ''std::is_integral'' 1"

definition std_is_floating_point :: tmpl where
  "std_is_floating_point = class_template ''std::is_floating_point'' 1"

text \<open>
  Modelled from the spec: the truth value of a type of compile-time conditions, as
  \<open>BOOST_HANA_STATIC_ASSERT\<close> (detail/static_assert.hpp) and \<open>count\<close> read it;
  neither is among the sources. It is the constant \<open>v\<close> of an \<open>integral<bool, v>\<close>
  and the member \<open>value\<close> of a standard trait.
\<close>

fun value_of :: "ctype \<Rightarrow> bool option" where
  "value_of (IntegralTy CBool v) = Some (v \<noteq> 0)"
| "value_of (Inst name [T]) =
     (if name = ''std::is_integral'' then Some (is_integral T)
      else if name = ''std::is_floating_point'' then Some (is_floating_point T)
      else None)"
| "value_of _ = None"

text \<open>
  Modelled from the spec: the truth value of an object used as a compile-time
  condition, which is that of its type; a use of any other object is ill-formed.
\<close>

definition condition :: "cval \<Rightarrow> bool result" where
  "condition b =
     (case value_of (typeof b) of
        None \<Rightarrow> Inl (Not_a_condition (typeof b))
      | Some c \<Rightarrow> Inr c)"

text \<open>
  A translation unit with the standard traits, \<open>std::pair\<close> and \<open>std::vector\<close>: a
  trait is built as \<open>{}\<close>, an arithmetic type as \<open>{}\<close> or from a value of its own
  type, a pair from nothing or from its two members, and a vector from nothing by
  braces and from an initializer list of its elements by parentheses.
\<close>

definition std_decls :: decls where
  "std_decls =
     \<lparr> list_initializable = (\<lambda>T As.
         case T of
           Inst name xs \<Rightarrow>
             if name = ''std::pair'' then length xs = 2 \<and> (As = [] \<or> As = xs)
             else if name = ''std::vector'' then length xs = 1 \<and> As = []
             else name \<in> set [''std::is_integral'', ''std::is_floating_point'']
                    \<and> length xs = 1 \<and> As = []
         | _ \<Rightarrow> (is_integral T \<or> is_floating_point T) \<and> (As = [] \<or> As = [T])),
       direct_initializable = (\<lambda>T As.
         case T of
           Inst name xs \<Rightarrow> name = ''std::vector'' \<and> As = map InitializerList xs
                             \<and> length xs = 1
         | _ \<Rightarrow> False),
       size_of = (\<lambda>T. if T = CChar then Some 1 else None) \<rparr>"

text \<open>
  A C++14 translation unit with the arithmetic types and the aggregate
  \<open>struct Agg { std::initializer_list<int> xs; };\<close>. An arithmetic type is built by
  braces from nothing or from a value of its own type, and by parentheses also from a
  value of any arithmetic type: in braces a conversion that may narrow, such as
  \<open>double\<close> to \<open>float\<close>, is ill-formed for an argument that is no constant (the
  conversions that cannot narrow are left out). \<open>Agg\<close> has no constructor of its own:
  it is built by braces from nothing or from its member, and by parentheses from
  nothing only (copies are left out).
\<close>

definition is_arithmetic :: "ctype \<Rightarrow> bool" where
  "is_arithmetic T = (is_integral T \<or> is_floating_point T)"

definition cxx14_decls :: decls where
  "cxx14_decls =
     \<lparr> list_initializable = (\<lambda>T As.
         case T of
           Class name \<Rightarrow> name = ''Agg'' \<and> (As = [] \<or> As = [InitializerList CInt])
         | _ \<Rightarrow> is_arithmetic T \<and> (As = [] \<or> As = [T])),
       direct_initializable = (\<lambda>T As.
         case T of
           Class name \<Rightarrow> name = ''Agg'' \<and> As = []
         | _ \<Rightarrow> is_arithmetic T
                 \<and> (case As of [] \<Rightarrow> True | [U] \<Rightarrow> is_arithmetic U | _ \<Rightarrow> False)),
       size_of = (\<lambda>T. None) \<rparr>"

text \<open>
  Modelled from the spec: \<open>list_t\<close> of list.hpp, which is not among the sources;
  example/list/foldable/count.cpp uses it. \<open>list_t<xs...>\<close> is the heterogeneous list
  of the Type objects \<open>type<xs>...\<close>.
\<close>

definition list_t :: "ctype list \<Rightarrow> cval list" where
  "list_t Ts = map type Ts"

text \<open>
  Modelled from the spec: the placeholder expression \<open>_ == y\<close> of functional.hpp,
  which is not among the sources: the function sending \<open>x\<close> to \<open>equal(x, y)\<close>.
\<close>

definition equal_to :: "cval \<Rightarrow> cval \<Rightarrow> cval result" where
  "equal_to y = (\<lambda>x. equal x y)"

text \<open>
  Modelled from the spec: \<open>count\<close> of foldable.hpp, which is not among the sources:
  \<open>count(pred, xs)\<close> is the number of elements of the heterogeneous list \<open>xs\<close> that
  satisfy the predicate \<open>pred\<close>. A predicate that is ill-formed on an element, or
  whose result is no condition, makes the call ill-formed.
\<close>

fun count :: "(cval \<Rightarrow> cval result) \<Rightarrow> cval list \<Rightarrow> nat result" where
  "count pred [] = Inr 0"
| "count pred (x # xs) =
     (case bind (pred x) condition of
        Inl e \<Rightarrow> Inl e
      | Inr c \<Rightarrow>
          (case count pred xs of
             Inl e \<Rightarrow> Inl e
           | Inr n \<Rightarrow> Inr (if c then Suc n else n)))"

section \<open>Basic facts\<close>

lemma bind_Inr: "bind (Inr x) k = k x"
  by (simp add: bind_def)

lemma bind_Inl: "bind (Inl e) k = Inl e"
  by (simp add: bind_def)

lemma typeof_type: "typeof (type T) = Wrapper T"
  by (simp add: type_def make_wrapper_def)

lemma call_type: "call D (type R) [] = list_init D R []"
  by (simp add: call_def construct_def typeof_type)

lemma type_inject: "type T = type U \<longleftrightarrow> T = U"
  by (simp add: type_def make_wrapper_def)

lemma datatype_of_type: "datatype_of (type T) = Some Type"
  by (simp add: datatype_of_def typeof_type)

lemma untype_t_Wrapper: "untype_t (Wrapper T) = Inr T"
  by (simp add: untype_t_def untype_def)

lemma untype_ts_Wrapper: "untype_ts (map Wrapper xs) = Inr xs"
  by (induction xs) (simp_all add: untype_t_Wrapper)

lemma untype_ts_types: "untype_ts (map typeof (map type xs)) = Inr xs"
proof -
  have "map typeof (map type xs) = map Wrapper xs"
    by (simp add: typeof_type)
  then show ?thesis
    by (simp only: untype_ts_Wrapper)
qed

lemma true_neq_false: "true_' \<noteq> false_'"
  by (simp add: true_'_def false_'_def)

lemma equal_types: "equal (type T) (type U) = Inr (equal_impl (type T) (type U))"
  by (simp add: equal_def datatype_of_type)

lemma Wrapper_neq: "Wrapper T \<noteq> T"
  by (induction T) simp_all

lemma list_init_Inr: "list_init D R [] = Inr v \<Longrightarrow> v = Braced R []"
  by (auto simp add: list_init_def split: ctype.splits if_splits)

lemma list_init_Wrapper: "list_init D (Wrapper X) [] = Inr (type X)"
  by (simp add: list_init_def type_def make_wrapper_def)

lemma datatype_of_Type: "datatype_of t = Some Type \<longleftrightarrow> (\<exists>X. typeof t = Wrapper X)"
  by (cases "typeof t") (simp_all add: datatype_of_def)

lemma unit_Type: "datatype_of t = Some Type \<Longrightarrow> unit t = Inr (decltype_' t)"
  by (simp add: unit_def unit_impl_def)

lemma join_Type: "datatype_of t = Some Type \<Longrightarrow> join D t = join_impl D t"
  by (simp add: join_def)

lemma join_impl_nested: "typeof t = Wrapper (Wrapper X) \<Longrightarrow> join_impl D t = Inr (type X)"
  by (simp add: join_impl_def untype_t_Wrapper bind_Inr list_init_Wrapper)

lemma count_filter:
  "list_all (\<lambda>x. bind (pred x) condition = Inr (p x)) xs \<Longrightarrow>
     count pred xs = Inr (length (filter p xs))"
  by (induction xs) simp_all

lemma condition_equal_type:
  "datatype_of x = Some Type \<Longrightarrow>
     bind (equal_to (type U) x) condition = Inr (typeof x = Wrapper U)"
  by (simp add: equal_to_def equal_def datatype_of_type equal_impl_def typeof_type bind_Inr
      condition_def true_'_def false_'_def)

lemma condition_is_floating_point:
  "bind (lift std_decls std_is_floating_point [type T]) condition = Inr (is_floating_point T)"
  by (simp add: lift_def typeof_type untype_t_Wrapper bind_Inr instantiate_def
      std_is_floating_point_def class_template_def list_init_def std_decls_def condition_def)

lemma call_braces:
  "\<forall>E. map typeof args \<noteq> [InitializerList E] \<Longrightarrow> call D (type T) args = list_init D T args"
  by (auto simp add: call_def typeof_type construct_def split: list.splits ctype.splits)

lemma call_parens:
  "typeof a = InitializerList E \<Longrightarrow> call D (type T) [a] = direct_init D T [a]"
  by (simp add: call_def typeof_type construct_def)

lemma list_init_ok:
  "list_initializable D T (map typeof args) \<Longrightarrow> list_init D T args = Inr (Braced T args)"
  by (auto simp add: list_init_def split: ctype.splits list.splits)

lemma list_init_fails:
  "\<not> list_initializable D T (map typeof args) \<Longrightarrow> \<forall>X. T = Wrapper X \<longrightarrow> args \<noteq> [] \<Longrightarrow>
     list_init D T args = Inl (Not_initializable T (map typeof args))"
  by (auto simp add: list_init_def split: ctype.splits list.splits)

lemma join_wrapper: "typeof t = Wrapper X \<Longrightarrow> join D t = list_init D X []"
  by (simp add: join_def datatype_of_def join_impl_def untype_t_Wrapper bind_Inr)

lemma equal_result: "equal_impl t u = true_' \<or> equal_impl t u = false_'"
  by (simp add: equal_impl_def)

lemma booleans_untagged: "datatype_of true_' \<noteq> Some Type \<and> datatype_of false_' \<noteq> Some Type"
  by (simp add: datatype_of_def true_'_def false_'_def)

section \<open>Equality of Type objects\<close>

text \<open>
  C1. For all C++ types \<open>T\<close> and \<open>U\<close>, \<open>equal(type<T>, type<U>)\<close> is the
  compile-time boolean \<open>true_\<close> if and only if \<open>T\<close> and \<open>U\<close> are the same type, and it
  is \<open>false_\<close> otherwise; the same holds of \<open>Comparable<Type, Type>::equal_impl\<close>, which
  the call dispatches to. In particular \<open>equal(type<T>, type<T>)\<close> is \<open>true_\<close>.
\<close>

theorem equal_type_iff_same:
  "(equal (type T) (type U) = Inr true_' \<longleftrightarrow> T = U)
   \<and> (equal (type T) (type U) = Inr false_' \<longleftrightarrow> T \<noteq> U)
   \<and> (equal_impl (type T) (type U) = true_' \<longleftrightarrow> T = U)
   \<and> equal (type T) (type T) = Inr true_'"
  by (simp add: equal_types equal_impl_def typeof_type true_neq_false true_neq_false [symmetric])

theorem equal_type_iff_same_witness:
  "equal (type CInt) (type CInt) = Inr true_'
   \<and> equal (type CInt) (type CChar) = Inr false_'
   \<and> equal (type (Wrapper CInt)) (type CInt) = Inr false_'"
  using equal_type_iff_same [of CInt CInt] equal_type_iff_same [of CInt CChar]
    equal_type_iff_same [of "Wrapper CInt" CInt]
  by simp

section \<open>Templates on Type objects\<close>

text \<open>
  C2. For every template \<open>f\<close> and all types \<open>x1, ..., xN\<close>,
  \<open>template_<f>(type<x1>, ..., type<xN>)\<close> is the Type object
  \<open>type<f<x1, ..., xN>>\<close>: whenever \<open>f<x1, ..., xN>\<close> names a type \<open>R\<close> the call
  returns \<open>type<R>\<close>, and it is ill-formed only when the template-id is.
\<close>

theorem template_on_types:
  "template_' f (map type xs) =
     (case f xs of None \<Rightarrow> Inl (Invalid_template_id xs) | Some R \<Rightarrow> Inr (type R))"
  unfolding template_'_def untype_ts_types bind_Inr
  by (simp add: instantiate_def bind_def split: option.split)

theorem template_on_types_witness:
  "template_' (class_template ''std::pair'' 2) [type CInt, type CChar] =
     Inr (type (Inst ''std::pair'' [CInt, CChar]))
   \<and> template_' (class_template ''std::pair'' 2) [type CInt] =
     Inl (Invalid_template_id [CInt])"
  using template_on_types [of "class_template ''std::pair'' 2" "[CInt, CChar]"]
    template_on_types [of "class_template ''std::pair'' 2" "[CInt]"]
  by (simp add: class_template_def)

text \<open>
  C3. \<open>untype\<close> is the inverse of \<open>type\<close>: for every type \<open>T\<close>, \<open>untype\<close> and
  \<open>untype_t\<close> applied to the type of the Type object \<open>type<T>\<close> give \<open>T\<close> back, so
  two Type objects whose types \<open>untype\<close> alike are the same object.
\<close>

theorem untype_type:
  "untype (typeof (type T)) = Inr T
   \<and> untype_t (typeof (type T)) = Inr T
   \<and> (untype_t (typeof (type T)) = untype_t (typeof (type U)) \<longleftrightarrow> type T = type U)"
  by (simp add: typeof_type untype_t_def untype_def type_inject)

theorem untype_type_witness:
  "untype_t (typeof (type (Pointer CVoid))) = Inr (Pointer CVoid)
   \<and> untype_t (typeof (type (Wrapper CInt))) = Inr (Wrapper CInt)
   \<and> untype_t (typeof (type CInt)) \<noteq> untype_t (typeof (type CLong))"
  using untype_type [of "Pointer CVoid" CInt] untype_type [of "Wrapper CInt" CInt]
    untype_type [of CInt CLong]
  by (auto simp add: type_inject)

text \<open>
  C5. For every template \<open>f\<close> and all Type objects \<open>type<x1>, ..., type<xN>\<close>,
  \<open>lift<f>(type<x1>, ..., type<xN>)\<close> is \<open>f<x1, ..., xN>{}\<close>: when it is well-formed
  it returns the default-constructed object \<open>v\<close> of the type \<open>R\<close> that the template-id
  names. That object is not the Type object \<open>type<R>\<close> that \<open>template_<f>\<close> returns
  (whose type wraps the type of \<open>v\<close>), and it carries no \<open>Type\<close> tag when \<open>f\<close> is a
  class template. For all arguments \<open>t...\<close>, \<open>lift<f>(t...)\<close> is
  \<open>template_<f>(t...)()\<close>.
\<close>

theorem lift_on_types:
  "lift D f (map type xs) =
     (case f xs of None \<Rightarrow> Inl (Invalid_template_id xs) | Some R \<Rightarrow> list_init D R [])
   \<and> (lift D f (map type xs) = Inr v \<longrightarrow>
        (\<exists>R. f xs = Some R \<and> v = Braced R [] \<and> typeof v = R
           \<and> template_' f (map type xs) = Inr (type R) \<and> v \<noteq> type R
           \<and> typeof (type R) = Wrapper (typeof v)))
   \<and> (lift D (class_template name n) (map type xs) = Inr v \<longrightarrow>
        datatype_of v \<noteq> Some Type)
   \<and> lift D f ts = bind (template_' f ts) (\<lambda>t. call D t [])"
proof -
  have unfolded: "lift D g (map type xs) =
      (case g xs of None \<Rightarrow> Inl (Invalid_template_id xs) | Some R \<Rightarrow> list_init D R [])"
    for g
    unfolding lift_def untype_ts_types bind_Inr
    by (simp add: instantiate_def bind_def split: option.split)
  have tmpl: "template_' f (map type xs) = Inr (type R)" if "f xs = Some R" for R
    unfolding template_'_def untype_ts_types bind_Inr
    using that by (simp add: instantiate_def bind_def)
  have object: "\<exists>R. f xs = Some R \<and> v = Braced R [] \<and> typeof v = R
      \<and> template_' f (map type xs) = Inr (type R) \<and> v \<noteq> type R
      \<and> typeof (type R) = Wrapper (typeof v)"
    if ok: "lift D f (map type xs) = Inr v"
  proof (cases "f xs")
    case None
    with ok unfolded [of f] show ?thesis by simp
  next
    case (Some R)
    with ok unfolded [of f] have "list_init D R [] = Inr v" by simp
    then have v: "v = Braced R []" by (rule list_init_Inr)
    have "Braced R [] \<noteq> type R"
      using Wrapper_neq [of R] by (simp add: type_def make_wrapper_def)
    with v Some tmpl [OF Some] show ?thesis by (simp add: typeof_type)
  qed
  have untagged: "datatype_of v \<noteq> Some Type"
    if ok: "lift D (class_template name n) (map type xs) = Inr v"
  proof (cases "length xs = n")
    case True
    with ok unfolded [of "class_template name n"]
    have "list_init D (Inst name xs) [] = Inr v" by (simp add: class_template_def)
    then have "v = Braced (Inst name xs) []" by (rule list_init_Inr)
    then show ?thesis by (simp add: datatype_of_def)
  next
    case False
    with ok unfolded [of "class_template name n"] show ?thesis
      by (simp add: class_template_def)
  qed
  have same: "lift D f ts = bind (template_' f ts) (\<lambda>t. call D t [])"
    by (simp add: lift_def template_'_def bind_def call_type
        split: sum.split)
  from unfolded [of f] object untagged same show ?thesis by blast
qed

theorem lift_on_types_witness:
  "lift std_decls std_is_floating_point [type CDouble] =
     Inr (Braced (Inst ''std::is_floating_point'' [CDouble]) [])
   \<and> lift std_decls std_is_floating_point [type CDouble] =
     bind (template_' std_is_floating_point [type CDouble]) (\<lambda>t. call std_decls t [])
   \<and> template_' std_is_floating_point [type CDouble] =
     Inr (type (Inst ''std::is_floating_point'' [CDouble]))
   \<and> datatype_of (Braced (Inst ''std::is_floating_point'' [CDouble]) []) \<noteq> Some Type"
proof -
  let ?R = "Inst ''std::is_floating_point'' [CDouble]"
  have f: "std_is_floating_point [CDouble] = Some ?R"
    by (simp add: std_is_floating_point_def class_template_def)
  have g: "std_is_floating_point = class_template ''std::is_floating_point'' 1"
    by (simp add: std_is_floating_point_def)
  have i: "list_init std_decls ?R [] = Inr (Braced ?R [])"
    by (simp add: list_init_def std_decls_def)
  note t = lift_on_types [of std_decls std_is_floating_point "[CDouble]" "Braced ?R []"
      "''std::is_floating_point''" 1 "[type CDouble]"]
  have l: "lift std_decls std_is_floating_point [type CDouble] = Inr (Braced ?R [])"
    using t [THEN conjunct1] f i by simp
  have o: "template_' std_is_floating_point [type CDouble] = Inr (type ?R)"
    using t [THEN conjunct2, THEN conjunct1] l f by auto
  have u: "datatype_of (Braced ?R []) \<noteq> Some Type"
    using t [THEN conjunct2, THEN conjunct2, THEN conjunct1] l g by auto
  have s: "lift std_decls std_is_floating_point [type CDouble] =
      bind (template_' std_is_floating_point [type CDouble]) (\<lambda>t. call std_decls t [])"
    by (rule t [THEN conjunct2, THEN conjunct2, THEN conjunct2])
  from l s o u show ?thesis by blast
qed

text \<open>
  C10. \<open>lift_<f>\<close> is \<open>lift<f>\<close> after \<open>decltype_\<close>: for every template \<open>f\<close> and
  all values \<open>v1, ..., vN\<close>, \<open>lift_<f>(v1, ..., vN)\<close> is
  \<open>lift<f>(decltype_(v1), ..., decltype_(vN))\<close>, and when it is well-formed it returns
  the default-constructed object of the type \<open>f<decltype(v1), ..., decltype(vN)>\<close>.
\<close>

theorem lift__is_lift_decltype:
  "lift_' D f vs = lift_decltype D f vs
   \<and> lift_' D f vs = lift D f (map decltype_' vs)
   \<and> lift_' D f vs =
       (case f (map typeof vs) of
          None \<Rightarrow> Inl (Invalid_template_id (map typeof vs))
        | Some R \<Rightarrow> list_init D R [])
   \<and> (lift_' D f vs = Inr r \<longrightarrow>
        (\<exists>R. f (map typeof vs) = Some R \<and> r = Braced R [] \<and> typeof r = R))"
proof -
  have "map decltype_' vs = map type (map typeof vs)"
    by (simp add: decltype_'_def)
  then have args: "untype_ts (map typeof (map decltype_' vs)) = Inr (map typeof vs)"
    by (simp only: untype_ts_types)
  have same: "lift_' D f vs = lift D f (map decltype_' vs)"
    unfolding lift_'_def lift_def args bind_Inr ..
  have unfolded: "lift_' D f vs =
      (case f (map typeof vs) of
         None \<Rightarrow> Inl (Invalid_template_id (map typeof vs))
       | Some R \<Rightarrow> list_init D R [])"
    by (simp add: lift_'_def instantiate_def bind_def split: option.split)
  have object: "\<exists>R. f (map typeof vs) = Some R \<and> r = Braced R [] \<and> typeof r = R"
    if ok: "lift_' D f vs = Inr r"
  proof (cases "f (map typeof vs)")
    case None
    with ok unfolded show ?thesis by simp
  next
    case (Some R)
    with ok unfolded have "list_init D R [] = Inr r" by simp
    then have "r = Braced R []" by (rule list_init_Inr)
    with Some show ?thesis by simp
  qed
  from same unfolded object show ?thesis
    by (simp add: lift_decltype_def)
qed

theorem lift__is_lift_decltype_witness:
  "lift_' std_decls std_is_integral [Lit CInt ''2''] =
     lift std_decls std_is_integral [decltype_' (Lit CInt ''2'')]
   \<and> lift_' std_decls std_is_integral [Lit CInt ''2''] =
     Inr (Braced (Inst ''std::is_integral'' [CInt]) [])
   \<and> bind (lift_' std_decls std_is_integral [Lit CInt ''2'']) condition = Inr True
   \<and> bind (lift_' std_decls std_is_integral [Lit CLongLong ''2ll'']) condition = Inr True
   \<and> bind (lift_' std_decls std_is_integral [Lit CDouble ''2.2'']) condition = Inr False
   \<and> (\<exists>R. std_is_integral (map typeof [Lit CInt ''2'']) = Some R
          \<and> typeof (Braced (Inst ''std::is_integral'' [CInt]) []) = R)"
proof -
  have f: "std_is_integral (map typeof [Lit T s]) = Some (Inst ''std::is_integral'' [T])" for T s
    by (simp add: std_is_integral_def class_template_def)
  have i: "list_init std_decls (Inst ''std::is_integral'' [T]) [] =
      Inr (Braced (Inst ''std::is_integral'' [T]) [])" for T
    by (simp add: list_init_def std_decls_def)
  have c: "condition (Braced (Inst ''std::is_integral'' [T]) []) = Inr (is_integral T)" for T
    by (simp add: condition_def)
  have l: "lift_' std_decls std_is_integral [Lit T s] =
      Inr (Braced (Inst ''std::is_integral'' [T]) [])" for T s
    using lift__is_lift_decltype [of std_decls std_is_integral "[Lit T s]" r,
        THEN conjunct2, THEN conjunct2, THEN conjunct1] f [of T s] i [of T]
    by simp
  have d: "lift_' std_decls std_is_integral [Lit CInt ''2''] =
      lift std_decls std_is_integral [decltype_' (Lit CInt ''2'')]"
    using lift__is_lift_decltype [of std_decls std_is_integral "[Lit CInt ''2'']" r,
        THEN conjunct2, THEN conjunct1]
    by simp
  have b: "bind (lift_' std_decls std_is_integral [Lit T s]) condition = Inr (is_integral T)"
    for T s
    by (simp add: l c bind_Inr)
  have e: "\<exists>R. std_is_integral (map typeof [Lit CInt ''2'']) = Some R
      \<and> typeof (Braced (Inst ''std::is_integral'' [CInt]) []) = R"
    using lift__is_lift_decltype [of std_decls std_is_integral "[Lit CInt ''2'']"
        "Braced (Inst ''std::is_integral'' [CInt]) []",
        THEN conjunct2, THEN conjunct2, THEN conjunct2] l [of CInt "''2''"]
    by blast
  have b1: "bind (lift_' std_decls std_is_integral [Lit CInt ''2'']) condition = Inr True"
    and b2: "bind (lift_' std_decls std_is_integral [Lit CLongLong ''2ll'']) condition = Inr True"
    and b3: "bind (lift_' std_decls std_is_integral [Lit CDouble ''2.2'']) condition = Inr False"
    by (simp_all add: b is_integral_def)
  from d l [of CInt "''2''"] b1 b2 b3 e show ?thesis
    by blast
qed

section \<open>The Monad instance\<close>

text \<open>
  C6. \<open>Type\<close> is an instance of Monad: \<open>unit(t)\<close> is \<open>decltype_(t)\<close> for every
  Type object \<open>t\<close>, and \<open>join\<close> sends a Type object that represents the type of a
  Type object, such as \<open>decltype_(type<T>)\<close>, to the inner Type object. Hence
  \<open>join(unit(type<T>))\<close> is \<open>type<T>\<close>, and for every object \<open>t\<close> tagged \<open>Type\<close>
  the comparison \<open>join(unit(t)) == t\<close> is \<open>true_\<close>.
\<close>

theorem join_unit:
  "unit (type T) = Inr (decltype_' (type T))
   \<and> (datatype_of t = Some Type \<longrightarrow> unit t = Inr (decltype_' t))
   \<and> join D (decltype_' (type T)) = Inr (type T)
   \<and> (typeof tt = Wrapper (Wrapper X) \<longrightarrow> join D tt = Inr (type X))
   \<and> bind (unit (type T)) (join D) = Inr (type T)
   \<and> (datatype_of t = Some Type \<longrightarrow>
        bind (bind (unit t) (join D)) (\<lambda>r. equal r t) = Inr true_')
   \<and> unit_impl t = decltype_' t
   \<and> join_impl D (unit_impl (type T)) = Inr (type T)"
proof -
  have impls: "unit_impl t = decltype_' t \<and> join_impl D (unit_impl (type T)) = Inr (type T)"
    by (simp add: unit_impl_def decltype_'_def typeof_type join_impl_nested)
  have nested: "join D tt = Inr (type X)" if "typeof tt = Wrapper (Wrapper X)" for tt X
    using that by (simp add: join_Type datatype_of_def join_impl_nested)
  have collapse: "join D (decltype_' u) = Inr (type X)" if "typeof u = Wrapper X" for u X
    using that by (simp add: nested decltype_'_def typeof_type)
  have law: "bind (bind (unit t) (join D)) (\<lambda>r. equal r t) = Inr true_'"
    if tagged: "datatype_of t = Some Type"
  proof -
    from tagged obtain X where X: "typeof t = Wrapper X"
      by (auto simp add: datatype_of_Type)
    have "equal (type X) t = Inr true_'"
      using tagged X by (simp add: equal_def datatype_of_type equal_impl_def typeof_type)
    with tagged X show ?thesis
      by (simp add: unit_Type bind_Inr collapse)
  qed
  have unit_type: "unit (type T) = Inr (decltype_' (type T))"
    by (simp add: unit_Type datatype_of_type)
  have unit_any: "datatype_of t = Some Type \<longrightarrow> unit t = Inr (decltype_' t)"
    by (simp add: unit_Type)
  have join_type: "join D (decltype_' (type T)) = Inr (type T)"
    by (simp add: collapse typeof_type)
  have round_trip: "bind (unit (type T)) (join D) = Inr (type T)"
    by (simp add: unit_type bind_Inr join_type)
  from unit_type unit_any join_type nested round_trip law impls show ?thesis
    by blast
qed

theorem join_unit_witness:
  "datatype_of (Parens (Wrapper CInt) []) = Some Type
   \<and> typeof (type (Wrapper CInt)) = Wrapper (Wrapper CInt)
   \<and> unit (type CInt) = Inr (decltype_' (type CInt))
   \<and> join std_decls (type (Wrapper CInt)) = Inr (type CInt)
   \<and> bind (unit (type CInt)) (join std_decls) = Inr (type CInt)
   \<and> bind (bind (unit (Parens (Wrapper CInt) [])) (join std_decls))
        (\<lambda>r. equal r (Parens (Wrapper CInt) [])) = Inr true_'"
proof -
  have tagged: "datatype_of (Parens (Wrapper CInt) []) = Some Type"
    by (simp add: datatype_of_def)
  have nested: "typeof (type (Wrapper CInt)) = Wrapper (Wrapper CInt)"
    by (simp add: typeof_type)
  note t = join_unit [of CInt "Parens (Wrapper CInt) []" std_decls "type (Wrapper CInt)" CInt]
  from t tagged nested show ?thesis
    by blast
qed

section \<open>Type objects as constructors\<close>

text \<open>
  C9, as stated, fails. A \<open>float\<close> can be constructed from a \<open>double\<close>, yet
  \<open>type<float>(double{1.2})\<close> is ill-formed: the call operator builds
  \<open>float{args...}\<close> from its by-value parameter, a narrowing conversion of an
  argument that is no constant, as the documentation of \<open>type\<close> itself records. And
  an aggregate \<open>Agg\<close> that \<open>Agg{ilist}\<close> builds from a
  \<open>std::initializer_list\<close> is not built by \<open>type<Agg>(ilist)\<close>: the overload for one
  initializer list is selected, and it builds \<open>Agg(ilist)\<close>.
\<close>

theorem type_constructs_counterexample:
  "direct_initializable cxx14_decls CFloat (map typeof [Braced CDouble [Lit CDouble ''1.2'']])
   \<and> call cxx14_decls (type CFloat) [Braced CDouble [Lit CDouble ''1.2'']] =
       Inl (Not_initializable CFloat [CDouble])
   \<and> list_initializable cxx14_decls (Class ''Agg'') (map typeof [IList CInt [Lit CInt ''1'']])
   \<and> call cxx14_decls (type (Class ''Agg'')) [IList CInt [Lit CInt ''1'']] =
       Inl (Not_initializable (Class ''Agg'') [InitializerList CInt])"
  by (simp add: cxx14_decls_def is_arithmetic_def is_integral_def is_floating_point_def
      call_def typeof_type construct_def list_init_def direct_init_def)

text \<open>
  C9, amended. \<open>type<T>\<close> is callable as a constructor whose result is decided by
  the overload that the arguments select. A call that is not a call with one
  \<open>std::initializer_list\<close> returns the object \<open>T{args...}\<close>, of type \<open>T\<close>, when
  \<open>T{args...}\<close> is well-formed for the by-value copies of the arguments, and is
  ill-formed otherwise (the call \<open>wrapper{}\<close> apart, which is always well-formed). A
  call with one \<open>std::initializer_list<E>\<close> returns \<open>T(ilist)\<close>, of type \<open>T\<close>, when
  \<open>T(ilist)\<close> is well-formed, and is ill-formed otherwise.
\<close>

theorem type_constructs:
  "(list_initializable D T (map typeof args) \<longrightarrow>
      (\<forall>E. map typeof args \<noteq> [InitializerList E]) \<longrightarrow>
      call D (type T) args = Inr (Braced T args) \<and> typeof (Braced T args) = T)
   \<and> (typeof a = InitializerList E \<longrightarrow> direct_initializable D T [InitializerList E] \<longrightarrow>
        call D (type T) [a] = Inr (Parens T [a]) \<and> typeof (Parens T [a]) = T)
   \<and> (\<not> list_initializable D T (map typeof args) \<longrightarrow>
        (\<forall>E. map typeof args \<noteq> [InitializerList E]) \<longrightarrow>
        (\<forall>X. T = Wrapper X \<longrightarrow> args \<noteq> []) \<longrightarrow>
        call D (type T) args = Inl (Not_initializable T (map typeof args)))
   \<and> (typeof a = InitializerList E \<longrightarrow> \<not> direct_initializable D T [InitializerList E] \<longrightarrow>
        call D (type T) [a] = Inl (Not_initializable T [InitializerList E]))"
proof -
  have braces: "call D (type T) args = Inr (Braced T args)"
    if "list_initializable D T (map typeof args)"
      and "\<forall>E. map typeof args \<noteq> [InitializerList E]"
    using that by (simp add: call_braces list_init_ok)
  have parens: "call D (type T) [a] = Inr (Parens T [a])"
    if "typeof a = InitializerList E" and "direct_initializable D T [InitializerList E]"
    using that by (simp add: call_parens direct_init_def)
  have no_braces: "call D (type T) args = Inl (Not_initializable T (map typeof args))"
    if "\<not> list_initializable D T (map typeof args)"
      and "\<forall>E. map typeof args \<noteq> [InitializerList E]"
      and "\<forall>X. T = Wrapper X \<longrightarrow> args \<noteq> []"
    using that by (simp add: call_braces list_init_fails)
  have no_parens: "call D (type T) [a] = Inl (Not_initializable T [InitializerList E])"
    if "typeof a = InitializerList E" and "\<not> direct_initializable D T [InitializerList E]"
    using that by (simp add: call_parens direct_init_def)
  from braces parens no_braces no_parens show ?thesis by simp
qed

theorem type_constructs_witness:
  "list_initializable std_decls (Inst ''std::pair'' [CInt, CChar])
     (map typeof [Lit CInt ''1'', Lit CChar ''c''])
   \<and> typeof (IList CInt [Lit CInt ''1'', Lit CInt ''2'']) = InitializerList CInt
   \<and> direct_initializable std_decls (Inst ''std::vector'' [CInt]) [InitializerList CInt]
   \<and> call std_decls (type (Inst ''std::pair'' [CInt, CChar])) [Lit CInt ''1'', Lit CChar ''c''] =
     Inr (Braced (Inst ''std::pair'' [CInt, CChar]) [Lit CInt ''1'', Lit CChar ''c''])
   \<and> call std_decls (type (Inst ''std::vector'' [CInt])) [IList CInt [Lit CInt ''1'', Lit CInt ''2'']] =
     Inr (Parens (Inst ''std::vector'' [CInt]) [IList CInt [Lit CInt ''1'', Lit CInt ''2'']])
   \<and> \<not> list_initializable cxx14_decls CFloat (map typeof [Braced CDouble [Lit CDouble ''1.2'']])
   \<and> call cxx14_decls (type CFloat) [Braced CDouble [Lit CDouble ''1.2'']] =
     Inl (Not_initializable CFloat (map typeof [Braced CDouble [Lit CDouble ''1.2'']]))
   \<and> \<not> direct_initializable cxx14_decls (Class ''Agg'') [InitializerList CInt]
   \<and> call cxx14_decls (type (Class ''Agg'')) [IList CInt [Lit CInt ''1'', Lit CInt ''2'']] =
     Inl (Not_initializable (Class ''Agg'') [InitializerList CInt])"
proof -
  let ?P = "Inst ''std::pair'' [CInt, CChar]"
  let ?V = "Inst ''std::vector'' [CInt]"
  let ?il = "IList CInt [Lit CInt ''1'', Lit CInt ''2'']"
  have p: "list_initializable std_decls ?P (map typeof [Lit CInt ''1'', Lit CChar ''c''])"
    by (simp add: std_decls_def)
  have n: "\<forall>E. map typeof [Lit CInt ''1'', Lit CChar ''c''] \<noteq> [InitializerList E]"
    by simp
  have v: "direct_initializable std_decls ?V [InitializerList CInt]"
    by (simp add: std_decls_def)
  have i: "typeof ?il = InitializerList CInt"
    by simp
  from type_constructs [of std_decls ?P "[Lit CInt ''1'', Lit CChar ''c'']" ?il CInt] p n
  have a: "call std_decls (type ?P) [Lit CInt ''1'', Lit CChar ''c''] =
      Inr (Braced ?P [Lit CInt ''1'', Lit CChar ''c''])"
    by blast
  from type_constructs [of std_decls ?V "[]" ?il CInt] v i
  have b: "call std_decls (type ?V) [?il] = Inr (Parens ?V [?il])"
    by blast
  let ?d = "[Braced CDouble [Lit CDouble ''1.2'']]"
  have f: "\<not> list_initializable cxx14_decls CFloat (map typeof ?d)"
    by (simp add: cxx14_decls_def is_arithmetic_def)
  have g: "\<forall>E. map typeof ?d \<noteq> [InitializerList E]" and h: "\<forall>X. CFloat = Wrapper X \<longrightarrow> ?d \<noteq> []"
    by simp_all
  have w: "\<not> direct_initializable cxx14_decls (Class ''Agg'') [InitializerList CInt]"
    by (simp add: cxx14_decls_def)
  from type_constructs [of cxx14_decls CFloat ?d ?il CInt] f g h
  have c: "call cxx14_decls (type CFloat) ?d = Inl (Not_initializable CFloat (map typeof ?d))"
    by blast
  from type_constructs [of cxx14_decls "Class ''Agg''" "[]" ?il CInt] w i
  have d: "call cxx14_decls (type (Class ''Agg'')) [?il] =
      Inl (Not_initializable (Class ''Agg'') [InitializerList CInt])"
    by blast
  from p i v a b f c w d show ?thesis by blast
qed

section \<open>Counting in a list of Type objects\<close>

text \<open>
  C7. \<open>count(pred, xs)\<close> is the number of elements of \<open>xs\<close> that satisfy \<open>pred\<close>:
  when \<open>pred\<close> yields a compile-time condition on every element, the count is the
  length of the list filtered by that condition. For
  \<open>list_t<int, char, long, short, char, long, double, long>\<close>, counting the elements
  equal to \<open>type<char>\<close> gives 2, counting those that satisfy
  \<open>lift<std::is_floating_point>\<close> gives 1, and counting those equal to \<open>type<void>\<close>
  gives 0, as example/list/foldable/count.cpp asserts.
\<close>

theorem count_counts:
  "(list_all (\<lambda>x. bind (pred x) condition = Inr (p x)) xs \<longrightarrow>
      count pred xs = Inr (length (filter p xs)))
   \<and> count (equal_to (type CChar))
         (list_t [CInt, CChar, CLong, CShort, CChar, CLong, CDouble, CLong]) = Inr 2
   \<and> count (\<lambda>x. lift std_decls std_is_floating_point [x])
         (list_t [CInt, CChar, CLong, CShort, CChar, CLong, CDouble, CLong]) = Inr 1
   \<and> count (equal_to (type CVoid))
         (list_t [CInt, CChar, CLong, CShort, CChar, CLong, CDouble, CLong]) = Inr 0"
proof -
  let ?types = "list_t [CInt, CChar, CLong, CShort, CChar, CLong, CDouble, CLong]"
  have eq: "count (equal_to (type U)) (list_t Ts) = Inr (length (filter (\<lambda>T. T = U) Ts))"
    for U Ts
  proof -
    have "list_all (\<lambda>x. bind (equal_to (type U) x) condition = Inr (typeof x = Wrapper U))
        (list_t Ts)"
      by (simp add: list_t_def list_all_iff condition_equal_type datatype_of_type)
    then have "count (equal_to (type U)) (list_t Ts) =
        Inr (length (filter (\<lambda>x. typeof x = Wrapper U) (list_t Ts)))"
      by (rule count_filter)
    also have "filter (\<lambda>x. typeof x = Wrapper U) (list_t Ts) = map type (filter (\<lambda>T. T = U) Ts)"
      by (simp add: list_t_def filter_map comp_def typeof_type)
    finally show ?thesis by simp
  qed
  have fp: "count (\<lambda>x. lift std_decls std_is_floating_point [x]) (list_t Ts) =
      Inr (length (filter is_floating_point Ts))" for Ts
  proof -
    have "list_all (\<lambda>x. bind (lift std_decls std_is_floating_point [x]) condition =
        Inr (is_floating_point (case typeof x of Wrapper T \<Rightarrow> T | _ \<Rightarrow> CVoid))) (list_t Ts)"
      by (simp add: list_t_def list_all_iff condition_is_floating_point typeof_type)
    then have "count (\<lambda>x. lift std_decls std_is_floating_point [x]) (list_t Ts) =
        Inr (length (filter (\<lambda>x. is_floating_point (case typeof x of Wrapper T \<Rightarrow> T | _ \<Rightarrow> CVoid))
          (list_t Ts)))"
      by (rule count_filter)
    also have "filter (\<lambda>x. is_floating_point (case typeof x of Wrapper T \<Rightarrow> T | _ \<Rightarrow> CVoid))
        (list_t Ts) = map type (filter is_floating_point Ts)"
      by (simp add: list_t_def filter_map comp_def typeof_type)
    finally show ?thesis by simp
  qed
  have general: "list_all (\<lambda>x. bind (pred x) condition = Inr (p x)) xs \<longrightarrow>
      count pred xs = Inr (length (filter p xs))"
    by (simp add: count_filter)
  have chars: "count (equal_to (type CChar)) ?types = Inr 2"
    by (simp add: eq)
  have floats: "count (\<lambda>x. lift std_decls std_is_floating_point [x]) ?types = Inr 1"
    by (simp add: fp is_floating_point_def)
  have voids: "count (equal_to (type CVoid)) ?types = Inr 0"
    by (simp add: eq)
  from general chars floats voids show ?thesis by blast
qed

theorem count_counts_witness:
  "list_all (\<lambda>x. bind (equal_to (type CInt) x) condition = Inr (typeof x = Wrapper CInt))
     [type CInt, type CLong, type CInt]
   \<and> count (equal_to (type CInt)) [type CInt, type CLong, type CInt] = Inr 2"
proof -
  let ?p = "\<lambda>x. typeof x = Wrapper CInt"
  let ?xs = "[type CInt, type CLong, type CInt]"
  have h: "list_all (\<lambda>x. bind (equal_to (type CInt) x) condition = Inr (?p x)) ?xs"
    by (simp add: condition_equal_type datatype_of_type)
  from count_counts [of "equal_to (type CInt)" ?p ?xs] h
  have "count (equal_to (type CInt)) ?xs = Inr (length (filter ?p ?xs))"
    by blast
  then have "count (equal_to (type CInt)) ?xs = Inr 2"
    by (simp add: typeof_type)
  with h show ?thesis by blast
qed

section \<open>The tag of Type objects\<close>

text \<open>
  C4, as stated, fails: operations on Type objects return objects that carry another
  tag or none. \<open>join(type<int>)\<close> is \<open>int{}\<close>, \<open>fmap(lift<std::is_integral>,
  type<int>)\<close> is \<open>std::is_integral<int>{}\<close>, and \<open>equal(type<int>, type<int>)\<close> is
  \<open>true_\<close>; none of them is tagged \<open>Type\<close>, while \<open>type<int>\<close> is.
\<close>

theorem type_tag_dispatch_counterexample:
  "datatype_of (type CInt) = Some Type
   \<and> join_impl std_decls (type CInt) = Inr (Braced CInt [])
   \<and> join std_decls (type CInt) = Inr (Braced CInt [])
   \<and> datatype_of (Braced CInt []) \<noteq> Some Type
   \<and> fmap (\<lambda>x. lift std_decls std_is_integral [x]) (type CInt) =
       Inr (Braced (Inst ''std::is_integral'' [CInt]) [])
   \<and> datatype_of (Braced (Inst ''std::is_integral'' [CInt]) []) \<noteq> Some Type
   \<and> equal (type CInt) (type CInt) = Inr true_'
   \<and> datatype_of true_' \<noteq> Some Type"
  by (simp add: datatype_of_type join_def join_impl_def typeof_type untype_t_Wrapper bind_Inr
      list_init_def std_decls_def is_integral_def datatype_of_def fmap_def fmap_impl_def
      lift_def instantiate_def std_is_integral_def class_template_def equal_types
      equal_impl_def true_'_def)

text \<open>
  C4, amended. Every \<open>type<T>\<close> carries the tag \<open>Type\<close>, and an object is tagged
  \<open>Type\<close> exactly when its type is a \<open>wrapper\<close>. On objects tagged \<open>Type\<close>,
  \<open>equal\<close>, \<open>fmap\<close>, \<open>unit\<close> and \<open>join\<close> are the operations of the instances that
  type.hpp registers for \<open>Type\<close>. Of their results, that of \<open>unit\<close> is always tagged
  \<open>Type\<close>; that of \<open>join\<close> is the default-constructed object of the type that the
  argument represents and carries the tag of that type, which is \<open>Type\<close> exactly when
  the argument represents the type of a Type object; \<open>fmap(f, t)\<close> is \<open>f(t)\<close>,
  tagged as \<open>f\<close> leaves it; and that of \<open>equal\<close> is \<open>true_\<close> or \<open>false_\<close>, which is
  not tagged \<open>Type\<close>.
\<close>

theorem type_tag_dispatch:
  "datatype_of (type T) = Some Type
   \<and> (datatype_of t = Some Type \<longrightarrow> datatype_of u = Some Type \<longrightarrow>
        equal t u = Inr (equal_impl t u))
   \<and> (datatype_of t = Some Type \<longrightarrow>
        fmap f t = fmap_impl f t \<and> unit t = Inr (unit_impl t) \<and> join D t = join_impl D t)
   \<and> (datatype_of v = Some Type \<longleftrightarrow> (\<exists>X. typeof v = Wrapper X))
   \<and> (datatype_of t = Some Type \<longrightarrow>
        (\<exists>r. unit t = Inr r \<and> datatype_of r = Some Type))
   \<and> (typeof t = Wrapper X \<longrightarrow> join D t = Inr r \<longrightarrow>
        r = Braced X [] \<and> typeof r = X \<and> datatype_of r = hana_datatype X
        \<and> (datatype_of r = Some Type \<longleftrightarrow> (\<exists>Y. X = Wrapper Y)))
   \<and> (typeof t = Wrapper (Wrapper Y) \<longrightarrow>
        join D t = Inr (type Y) \<and> datatype_of (type Y) = Some Type)
   \<and> (datatype_of t = Some Type \<longrightarrow> fmap f t = f t)
   \<and> (datatype_of t = Some Type \<longrightarrow> datatype_of u = Some Type \<longrightarrow>
        (\<exists>r. equal t u = Inr r \<and> (r = true_' \<or> r = false_')
           \<and> datatype_of r \<noteq> Some Type))"
proof -
  have eq: "equal t u = Inr (equal_impl t u)"
    if "datatype_of t = Some Type" and "datatype_of u = Some Type"
    using that by (simp add: equal_def)
  have ops: "fmap f t = fmap_impl f t \<and> unit t = Inr (unit_impl t) \<and> join D t = join_impl D t"
    if "datatype_of t = Some Type"
    using that by (simp add: fmap_def unit_def join_def)
  have unit_result: "\<exists>r. unit t = Inr r \<and> datatype_of r = Some Type"
    if "datatype_of t = Some Type"
    using that by (simp add: unit_Type decltype_'_def datatype_of_type)
  have join_result: "r = Braced X [] \<and> typeof r = X \<and> datatype_of r = hana_datatype X
      \<and> (datatype_of r = Some Type \<longleftrightarrow> (\<exists>Y. X = Wrapper Y))"
    if t: "typeof t = Wrapper X" and r: "join D t = Inr r"
  proof -
    from t r have "list_init D X [] = Inr r"
      by (simp add: join_wrapper)
    then have "r = Braced X []"
      by (rule list_init_Inr)
    then show ?thesis
      using datatype_of_Type [of r] by (simp add: datatype_of_def)
  qed
  have join_nested: "join D t = Inr (type Y) \<and> datatype_of (type Y) = Some Type"
    if "typeof t = Wrapper (Wrapper Y)"
    using that by (simp add: join_wrapper list_init_Wrapper datatype_of_type)
  have fmap_result: "fmap f t = f t" if "datatype_of t = Some Type"
    using that by (simp add: fmap_def fmap_impl_def)
  have equal_tag: "\<exists>r. equal t u = Inr r \<and> (r = true_' \<or> r = false_')
      \<and> datatype_of r \<noteq> Some Type"
    if "datatype_of t = Some Type" and "datatype_of u = Some Type"
    using that equal_result [of t u] booleans_untagged by (auto simp add: eq)
  from eq ops unit_result join_result join_nested fmap_result equal_tag
    datatype_of_type [of T] datatype_of_Type [of v]
  show ?thesis
    by blast
qed

theorem type_tag_dispatch_witness:
  "datatype_of (type (Wrapper CInt)) = Some Type
   \<and> datatype_of (type CChar) = Some Type
   \<and> typeof (type (Wrapper CInt)) = Wrapper (Wrapper CInt)
   \<and> join std_decls (type (Wrapper CInt)) = Inr (type CInt)
   \<and> datatype_of (type CInt) = Some Type
   \<and> equal (type (Wrapper CInt)) (type CChar) =
       Inr (equal_impl (type (Wrapper CInt)) (type CChar))
   \<and> fmap (\<lambda>x. template_' std_is_integral [x]) (type (Wrapper CInt)) =
       template_' std_is_integral [type (Wrapper CInt)]
   \<and> unit (type (Wrapper CInt)) = Inr (unit_impl (type (Wrapper CInt)))
   \<and> join std_decls (type (Wrapper CInt)) = join_impl std_decls (type (Wrapper CInt))
   \<and> (\<exists>r. unit (type (Wrapper CInt)) = Inr r \<and> datatype_of r = Some Type)
   \<and> (\<exists>r. equal (type (Wrapper CInt)) (type CChar) = Inr r \<and> datatype_of r \<noteq> Some Type)"
proof -
  have a: "datatype_of (type (Wrapper CInt)) = Some Type"
    and b: "datatype_of (type CChar) = Some Type"
    by (simp_all add: datatype_of_type)
  have c: "typeof (type (Wrapper CInt)) = Wrapper (Wrapper CInt)"
    by (simp add: typeof_type)
  note t = type_tag_dispatch [of CInt "type (Wrapper CInt)" "type CChar"
      "\<lambda>x. template_' std_is_integral [x]" std_decls "Parens (Wrapper CInt) []"
      "Wrapper CInt" "type CInt" CInt]
  from t a b c show ?thesis
    by blast
qed

end
